theory Spec2Isabelle
  imports Main "HOL-Library.Sublist" "HOL-Library.Char_ord" "HOL-Library.List_Lexorder"
begin

text \<open>
  Two agents speak the A2A task protocol over JSON-RPC. The requesting agent (agent-a)
  reads the text and the structured data of a message. The answering agent comes in two
  versions, a greeting agent (GreetingAgentExecutor) and a product service
  (ProductServiceExecutor with its ACP tool client); each runs under the same
  CustomRequestHandler, which saves every Task object it returns. This theory embeds
  these functions and proves what the specification says of them.
\<close>

section \<open>JavaScript values\<close>

text \<open>
  The agents exchange JSON: every value that reaches the code is a JSON value, and
  \<open>undefined\<close> appears when a property is read that an object does not have. An object
  is an association list in insertion order (the first binding of a key is the property);
  a key bound to \<open>JUndefined\<close> is a property that exists and holds \<open>undefined\<close>, which
  the \<open>in\<close> operator sees; the list holds each property once, in the order in which
  the engine enumerates them. Numbers are the integers among the JSON numbers; strings
  are lists of characters.
\<close>

datatype jsval =
    JUndefined
  | JNull
  | JBool bool
  | JNum int
  | JStr string
  | JArr "jsval list"
  | JObj "(string \<times> jsval) list"

type_synonym obj = "(string \<times> jsval) list"

text \<open>
  A thrown value: the error's constructor and its \<open>message\<close>. The message of an error
  that the engine throws is the engine's own wording; the texts here stand for it.
\<close>

datatype error = TypeError string | SyntaxError string | Error string

fun error_message :: "error \<Rightarrow> string" where
  "error_message (TypeError m) = m"
| "error_message (SyntaxError m) = m"
| "error_message (Error m) = m"

text \<open>\<open>!v\<close> is \<open>\<not> truthy v\<close>: \<open>undefined\<close>, \<open>null\<close>, \<open>false\<close>, \<open>0\<close> and \<open>''\<close> are falsy.\<close>

fun truthy :: "jsval \<Rightarrow> bool" where
  "truthy JUndefined = False"
| "truthy JNull = False"
| "truthy (JBool b) = b"
| "truthy (JNum n) = (n \<noteq> 0)"
| "truthy (JStr s) = (s \<noteq> [])"
| "truthy (JArr xs) = True"
| "truthy (JObj kvs) = True"

text \<open>
  \<open>v.k\<close> for the property names the code reads (\<open>parts\<close>, \<open>type\<close>, \<open>text\<close>, \<open>data\<close>,
  \<open>message\<close>, \<open>id\<close>, \<open>sessionId\<close>, \<open>history\<close>, \<open>status\<close>, \<open>action\<close>, \<open>filters\<close>,
  \<open>input\<close>, \<open>name\<close>, and the fields of the catalogue's answer): reading a property of
  \<open>undefined\<close> or \<open>null\<close> throws a TypeError, an object gives its binding or
  \<open>undefined\<close>, and no primitive or array has a property of one of these names.
\<close>

fun get_prop :: "jsval \<Rightarrow> string \<Rightarrow> error + jsval" where
  "get_prop JUndefined k = Inl (TypeError (''Cannot read properties of undefined (reading '' @ k @ '')''))"
| "get_prop JNull k = Inl (TypeError (''Cannot read properties of null (reading '' @ k @ '')''))"
| "get_prop (JObj kvs) k = Inr (case map_of kvs k of None \<Rightarrow> JUndefined | Some v \<Rightarrow> v)"
| "get_prop v k = Inr JUndefined"

text \<open>\<open>k in v\<close> for a value \<open>v\<close> with \<open>typeof v === "object"\<close> that is not \<open>null\<close>.\<close>

fun has_prop :: "string \<Rightarrow> jsval \<Rightarrow> bool" where
  "has_prop k (JObj kvs) = (k \<in> fst ` set kvs)"
| "has_prop k v = False"

text \<open>\<open>o.k = v\<close> on an object: an existing property keeps its place, a new one goes last.\<close>

fun set_prop :: "obj \<Rightarrow> string \<Rightarrow> jsval \<Rightarrow> obj" where
  "set_prop [] k v = [(k, v)]"
| "set_prop ((k', v') # kvs) k v =
     (if k' = k then (k, v) # kvs else (k', v') # set_prop kvs k v)"

section \<open>Built-in operations\<close>

text \<open>\<open>v?.k\<close>: \<open>undefined\<close> when \<open>v\<close> is \<open>undefined\<close> or \<open>null\<close>, else \<open>v.k\<close>.\<close>

definition opt_prop :: "jsval \<Rightarrow> string \<Rightarrow> jsval" where
  "opt_prop v k = (case get_prop v k of Inl e \<Rightarrow> JUndefined | Inr x \<Rightarrow> x)"

text \<open>\<open>a || b\<close>.\<close>

definition or_else :: "jsval \<Rightarrow> jsval \<Rightarrow> jsval" where
  "or_else a b = (if truthy a then a else b)"

text \<open>\<open>String(n)\<close> for an integer \<open>n\<close> (below \<open>10^21\<close> in absolute value): its decimal digits.\<close>

fun digits :: "nat \<Rightarrow> string" where
  "digits n =
     (if n < 10 then [''0123456789'' ! n]
      else digits (n div 10) @ [''0123456789'' ! (n mod 10)])"

declare digits.simps [simp del]

definition Number_toString :: "int \<Rightarrow> string" where
  "Number_toString i = (if i < 0 then CHR ''-'' # digits (nat (- i)) else digits (nat i))"

text \<open>
  ToString, as a template literal and \<open>join\<close> apply it. An array is its elements joined
  by commas, \<open>undefined\<close> and \<open>null\<close> elements being empty. An object without a \<open>toString\<close>
  property of its own inherits the one that answers \<open>[object Object]\<close>; with such a
  property, which in a JSON value is never callable, neither \<open>toString\<close> nor \<open>valueOf\<close>
  gives a primitive and the conversion throws.
\<close>

fun ToString :: "jsval \<Rightarrow> error + string"
  and join_comma :: "jsval list \<Rightarrow> error + string" where
  "ToString JUndefined = Inr ''undefined''"
| "ToString JNull = Inr ''null''"
| "ToString (JBool b) = Inr (if b then ''true'' else ''false'')"
| "ToString (JNum n) = Inr (Number_toString n)"
| "ToString (JStr s) = Inr s"
| "ToString (JArr xs) = join_comma xs"
| "ToString (JObj kvs) =
     (if ''toString'' \<in> fst ` set kvs
      then Inl (TypeError ''Cannot convert object to primitive value'')
      else Inr ''[object Object]'')"
| "join_comma [] = Inr []"
| "join_comma (x # xs) =
     (case (if x = JUndefined \<or> x = JNull then Inr [] else ToString x) of
        Inl e \<Rightarrow> Inl e
      | Inr s \<Rightarrow>
          (if xs = [] then Inr s
           else case join_comma xs of Inl e \<Rightarrow> Inl e | Inr r \<Rightarrow> Inr (s @ '','' @ r)))"

text \<open>\<open>s.toLowerCase()\<close> on the ASCII letters; \<open>s.includes(t)\<close>.\<close>

definition lower_char :: "char \<Rightarrow> char" where
  "lower_char c =
     (case List.find (\<lambda>(u, l). u = c)
             (zip ''ABCDEFGHIJKLMNOPQRSTUVWXYZ'' ''abcdefghijklmnopqrstuvwxyz'') of
        Some (u, l) \<Rightarrow> l
      | None \<Rightarrow> c)"

definition toLowerCase :: "string \<Rightarrow> string" where
  "toLowerCase s = map lower_char s"

definition String_includes :: "string \<Rightarrow> string \<Rightarrow> bool" where
  "String_includes s t = sublist t s"

text \<open>
  \<open>JSON.stringify(v)\<close>. A string is quoted, with the quote, the backslash and the
  control characters escaped. An array is its elements' texts, \<open>null\<close> for an
  \<open>undefined\<close> element; an object is its properties in order, those that hold
  \<open>undefined\<close> left out. Of \<open>undefined\<close> itself the answer is \<open>undefined\<close>, here \<open>None\<close>.
  No JSON value has a \<open>toJSON\<close> method.
\<close>

definition escape_char :: "char \<Rightarrow> string" where
  "escape_char c =
     (if c = CHR 0x22 then [CHR 0x5C, CHR 0x22]
      else if c = CHR 0x5C then [CHR 0x5C, CHR 0x5C]
      else if c = CHR 0x08 then [CHR 0x5C, CHR ''b'']
      else if c = CHR 0x0C then [CHR 0x5C, CHR ''f'']
      else if c = CHR 0x0A then [CHR 0x5C, CHR ''n'']
      else if c = CHR 0x0D then [CHR 0x5C, CHR ''r'']
      else if c = CHR 0x09 then [CHR 0x5C, CHR ''t'']
      else if (of_char c :: nat) < 32
        then [CHR 0x5C, CHR ''u'', CHR ''0'', CHR ''0'',
              ''0123456789abcdef'' ! (of_char c div 16),
              ''0123456789abcdef'' ! (of_char c mod 16)]
      else [c])"

definition quote :: "string \<Rightarrow> string" where
  "quote s = [CHR 0x22] @ concat (map escape_char s) @ [CHR 0x22]"

fun join_comma_texts :: "string list \<Rightarrow> string" where
  "join_comma_texts [] = []"
| "join_comma_texts [t] = t"
| "join_comma_texts (t # ts) = t @ '','' @ join_comma_texts ts"

fun member_texts :: "(string \<times> string option) list \<Rightarrow> string list" where
  "member_texts [] = []"
| "member_texts ((k, None) # ms) = member_texts ms"
| "member_texts ((k, Some t) # ms) = (quote k @ '':'' @ t) # member_texts ms"

primrec JSON_stringify :: "jsval \<Rightarrow> string option" where
  "JSON_stringify JUndefined = None"
| "JSON_stringify JNull = Some ''null''"
| "JSON_stringify (JBool b) = Some (if b then ''true'' else ''false'')"
| "JSON_stringify (JNum n) = Some (Number_toString n)"
| "JSON_stringify (JStr s) = Some (quote s)"
| "JSON_stringify (JArr xs) =
     Some (''['' @ join_comma_texts (map (\<lambda>t. case t of None \<Rightarrow> ''null'' | Some s \<Rightarrow> s)
                                        (map JSON_stringify xs)) @ '']'')"
| "JSON_stringify (JObj kvs) =
     Some (''{'' @ join_comma_texts (member_texts (map (map_prod id JSON_stringify) kvs)) @ ''}'')"

section \<open>Message and part queries\<close>

text \<open>\<open>parts.filter(part => part.type === ty)\<close> on the elements of an array.\<close>

fun filter_type :: "string \<Rightarrow> jsval list \<Rightarrow> error + jsval list" where
  "filter_type ty [] = Inr []"
| "filter_type ty (p # ps) =
     (case get_prop p ''type'' of
        Inl e \<Rightarrow> Inl e
      | Inr t \<Rightarrow>
          (case filter_type ty ps of
             Inl e \<Rightarrow> Inl e
           | Inr r \<Rightarrow> Inr (if t = JStr ty then p # r else r)))"

text \<open>\<open>parts.find(part => part.type === ty)\<close>: the first such element, or \<open>undefined\<close>.\<close>

fun find_type :: "string \<Rightarrow> jsval list \<Rightarrow> error + jsval" where
  "find_type ty [] = Inr JUndefined"
| "find_type ty (p # ps) =
     (case get_prop p ''type'' of
        Inl e \<Rightarrow> Inl e
      | Inr t \<Rightarrow> if t = JStr ty then Inr p else find_type ty ps)"

text \<open>\<open>.map(part => part.text)\<close> on elements whose \<open>type\<close> could be read.\<close>

fun map_text :: "jsval list \<Rightarrow> error + jsval list" where
  "map_text [] = Inr []"
| "map_text (p # ps) =
     (case get_prop p ''text'' of
        Inl e \<Rightarrow> Inl e
      | Inr t \<Rightarrow> (case map_text ps of Inl e \<Rightarrow> Inl e | Inr r \<Rightarrow> Inr (t # r)))"

text \<open>
  \<open>.join('')\<close>: \<open>undefined\<close> and \<open>null\<close> elements give the empty string, and any other
  element is converted by ToString.
\<close>

fun join_empty :: "jsval list \<Rightarrow> error + string" where
  "join_empty [] = Inr []"
| "join_empty (v # vs) =
     (case (if v = JUndefined \<or> v = JNull then Inr [] else ToString v) of
        Inl e \<Rightarrow> Inl e
      | Inr s \<Rightarrow> (case join_empty vs of Inl e \<Rightarrow> Inl e | Inr r \<Rightarrow> Inr (s @ r)))"

text \<open>
  \<open>parts.filter(part => part.type === 'text').map(part => part.text).join('')\<close> on the
  value \<open>parts\<close>: only an array has a \<open>filter\<close> method.
\<close>

fun text_of_parts :: "jsval \<Rightarrow> error + string" where
  "text_of_parts (JArr ps) =
     (case filter_type ''text'' ps of
        Inl e \<Rightarrow> Inl e
      | Inr fs \<Rightarrow> (case map_text fs of Inl e \<Rightarrow> Inl e | Inr xs \<Rightarrow> join_empty xs))"
| "text_of_parts JUndefined = Inl (TypeError ''Cannot read properties of undefined (reading filter)'')"
| "text_of_parts JNull = Inl (TypeError ''Cannot read properties of null (reading filter)'')"
| "text_of_parts v = Inl (TypeError ''filter is not a function'')"

text \<open>
  \<open>const dataPart = parts.find(part => part.type === 'data');
  dataPart ? dataPart.data : null\<close> on the value \<open>parts\<close>.
\<close>

fun data_of_parts :: "jsval \<Rightarrow> error + jsval" where
  "data_of_parts (JArr ps) =
     (case find_type ''data'' ps of
        Inl e \<Rightarrow> Inl e
      | Inr dataPart \<Rightarrow> if truthy dataPart then get_prop dataPart ''data'' else Inr JNull)"
| "data_of_parts JUndefined = Inl (TypeError ''Cannot read properties of undefined (reading find)'')"
| "data_of_parts JNull = Inl (TypeError ''Cannot read properties of null (reading find)'')"
| "data_of_parts v = Inl (TypeError ''find is not a function'')"

subsection \<open>agent-a: extractMessageText, extractDataFromMessage\<close>

definition extractMessageText :: "jsval \<Rightarrow> error + string" where
  "extractMessageText message =
     (if \<not> truthy message then Inr []
      else case get_prop message ''parts'' of
             Inl e \<Rightarrow> Inl e
           | Inr parts \<Rightarrow> if \<not> truthy parts then Inr [] else text_of_parts parts)"

definition extractDataFromMessage :: "jsval \<Rightarrow> error + jsval" where
  "extractDataFromMessage message =
     (if \<not> truthy message then Inr JNull
      else case get_prop message ''parts'' of
             Inl e \<Rightarrow> Inl e
           | Inr parts \<Rightarrow> if \<not> truthy parts then Inr JNull else data_of_parts parts)"

subsection \<open>The data model's Message\<close>

text \<open>
  A Part is an object; a part whose \<open>type\<close> is \<open>'text'\<close> holds a string in \<open>text\<close>.
  A Message is an object whose \<open>parts\<close> is an array of Parts.
\<close>

fun is_part :: "jsval \<Rightarrow> bool" where
  "is_part (JObj kvs) =
     (if map_of kvs ''type'' = Some (JStr ''text'')
      then (case map_of kvs ''text'' of Some (JStr s) \<Rightarrow> True | _ \<Rightarrow> False)
      else True)"
| "is_part v = False"

fun is_text_part :: "jsval \<Rightarrow> bool" where
  "is_text_part (JObj kvs) = (map_of kvs ''type'' = Some (JStr ''text''))"
| "is_text_part v = False"

fun part_text :: "jsval \<Rightarrow> string" where
  "part_text (JObj kvs) = (case map_of kvs ''text'' of Some (JStr s) \<Rightarrow> s | _ \<Rightarrow> [])"
| "part_text v = []"

fun message_parts :: "jsval \<Rightarrow> jsval list" where
  "message_parts (JObj kvs) = (case map_of kvs ''parts'' of Some (JArr ps) \<Rightarrow> ps | _ \<Rightarrow> [])"
| "message_parts v = []"

fun is_message :: "jsval \<Rightarrow> bool" where
  "is_message (JObj kvs) =
     (case map_of kvs ''parts'' of Some (JArr ps) \<Rightarrow> list_all is_part ps | _ \<Rightarrow> False)"
| "is_message v = False"


text \<open>
  What a call sees of the engine and of the outside: \<open>JSON.parse\<close> (which throws a
  SyntaxError on text that is not JSON), the successive readings of
  \<open>new Date().toISOString()\<close>, and the outcome of the \<open>fetch\<close> of the catalogue
  endpoint.
\<close>

record http_response =
  ok :: bool
  status :: int
  statusText :: string
  json :: "error + jsval"

record env =
  JSON_parse :: "string \<Rightarrow> error + jsval"
  clock :: "nat \<Rightarrow> string"
  fetch :: "error + http_response"

section \<open>The protocol's constants and envelopes\<close>

text \<open>
  Modelled from the spec: the enumerations \<open>Role\<close> and \<open>TaskState\<close> of the a2a-js
  package, which is not under src/; their values are the strings the protocol documents
  of the repository show on the wire.
\<close>

definition Role_User :: jsval where "Role_User = JStr ''user''"
definition Role_Agent :: jsval where "Role_Agent = JStr ''agent''"
definition TaskState_Working :: jsval where "TaskState_Working = JStr ''working''"
definition TaskState_Completed :: jsval where "TaskState_Completed = JStr ''completed''"

text \<open>
  A JSON-RPC request \<open>{jsonrpc, id, method, params}\<close>, and a response, which is either
  \<open>{jsonrpc: '2.0', id, result}\<close> or \<open>{jsonrpc: '2.0', id, error: {code, message}}\<close>.
\<close>

record request =
  request_id :: jsval
  request_method :: jsval
  request_params :: jsval

datatype response =
    Result jsval jsval
  | Failure jsval int string

text \<open>
  The \<open>catch\<close> block of both executors: code \<open>-32000\<close> and
  \<open>error.message || fallback\<close>.
\<close>

definition catch_response :: "request \<Rightarrow> string \<Rightarrow> error \<Rightarrow> response" where
  "catch_response r fallback e =
     Failure (request_id r) (- 32000)
       (if error_message e = [] then fallback else error_message e)"

text \<open>
  An executor is called with the request and the existing task, an object or nothing.
  It changes that object in place; the model returns, beside the response, the object
  as the call leaves it.
\<close>

type_synonym executor = "env \<Rightarrow> request \<Rightarrow> obj option \<Rightarrow> response \<times> obj option"

definition obj_get :: "obj \<Rightarrow> string \<Rightarrow> jsval" where
  "obj_get t k = (case map_of t k of None \<Rightarrow> JUndefined | Some v \<Rightarrow> v)"

definition left_as :: "obj option \<Rightarrow> obj \<Rightarrow> obj option" where
  "left_as task t = (case task of None \<Rightarrow> None | Some t0 \<Rightarrow> Some t)"

definition text_message :: "string \<Rightarrow> jsval" where
  "text_message s =
     JObj [(''role'', Role_Agent),
           (''parts'', JArr [JObj [(''type'', JStr ''text''), (''text'', JStr s)]])]"

definition status_object :: "jsval \<Rightarrow> jsval \<Rightarrow> string \<Rightarrow> jsval" where
  "status_object state message timestamp =
     JObj [(''state'', state), (''message'', message), (''timestamp'', JStr timestamp)]"


text \<open>Sequencing of steps that may throw: the first exception ends the \<open>try\<close> body.\<close>

definition and_then :: "error + 'a \<Rightarrow> ('a \<Rightarrow> error + 'b) \<Rightarrow> error + 'b" where
  "and_then x f = (case x of Inl e \<Rightarrow> Inl e | Inr v \<Rightarrow> f v)"

section \<open>agent-b: ACPToolClient\<close>

record product_data =
  products :: "jsval list"
  metadata :: jsval

definition product_data_value :: "product_data \<Rightarrow> jsval" where
  "product_data_value pd = JObj [(''products'', JArr (products pd)), (''metadata'', metadata pd)]"

definition normalize_product :: "jsval \<Rightarrow> error + jsval" where
  "normalize_product product =
     and_then (get_prop product ''id'') (\<lambda>i.
       Inr (JObj
         [(''id'', i),
          (''sku'', opt_prop product ''sku''),
          (''name'', opt_prop product ''name''),
          (''description'', or_else (opt_prop product ''description'') (JStr [])),
          (''price'', or_else (opt_prop (opt_prop product ''price'') ''amount'') (JNum 0)),
          (''currency'', or_else (opt_prop (opt_prop product ''price'') ''currency'') (JStr ''USD'')),
          (''inStock'', or_else (opt_prop (opt_prop product ''availability'') ''inStock'') (JBool False)),
          (''quantity'', or_else (opt_prop (opt_prop product ''availability'') ''quantity'') (JNum 0)),
          (''category'', or_else (opt_prop product ''category'') (JStr [])),
          (''vendor'', or_else (opt_prop (opt_prop product ''attributes'') ''vendor'') (JStr [])),
          (''tags'', or_else (opt_prop (opt_prop product ''attributes'') ''tags'') (JArr []))]))"

fun map_normalize :: "jsval list \<Rightarrow> error + jsval list" where
  "map_normalize [] = Inr []"
| "map_normalize (p # ps) =
     and_then (normalize_product p) (\<lambda>n.
     and_then (map_normalize ps) (\<lambda>ns. Inr (n # ns)))"

text \<open>
  \<open>getProducts(filters)\<close>: the \<open>fetch\<close>, the check of \<open>response.ok\<close>, \<open>response.json()\<close>
  and the normalisation of \<open>acpResponse.products || []\<close>; its \<open>catch\<close> logs and throws
  the error again. The filters are not used.
\<close>

definition getProducts :: "env \<Rightarrow> jsval \<Rightarrow> error + product_data" where
  "getProducts env filters =
     and_then (fetch env) (\<lambda>response.
       if \<not> ok response
       then Inl (Error (''ACP endpoint error: '' @ Number_toString (status response)
                         @ '' '' @ statusText response))
       else
         and_then (json response) (\<lambda>acpResponse.
         and_then (get_prop acpResponse ''products'') (\<lambda>ps.
         and_then (case or_else ps (JArr []) of
                     JArr xs \<Rightarrow> map_normalize xs
                   | _ \<Rightarrow> Inl (TypeError ''map is not a function'')) (\<lambda>normalizedProducts.
           Inr \<lparr>products = normalizedProducts,
                metadata = JObj
                  [(''total'', or_else (opt_prop (opt_prop acpResponse ''metadata'') ''total'')
                                 (JNum (int (length normalizedProducts)))),
                   (''shop'', or_else (opt_prop (opt_prop acpResponse ''shop'') ''name'')
                                (JStr ''Unknown'')),
                   (''currency'', or_else (opt_prop (opt_prop acpResponse ''shop'') ''currency'')
                                    (JStr ''USD'')),
                   (''lastSync'', or_else (opt_prop (opt_prop acpResponse ''shop'') ''lastSync'')
                                    JNull)]\<rparr>))))"

section \<open>agent-b: ProductServiceExecutor\<close>

text \<open>
  Lines 125 to 168 of \<open>onMessageSend\<close>: the two log lines that print \<open>request.id\<close> and
  \<open>request.method\<close> in template literals, the message, its text, its structured data
  and the test for a product request. The answer is \<open>None\<close> when the request is not a
  product request, else the message and the filters.
\<close>

definition product_request :: "request \<Rightarrow> error + (jsval \<times> jsval) option" where
  "product_request r =
     and_then (ToString (request_id r)) (\<lambda>logged_id.
     and_then (ToString (request_method r)) (\<lambda>logged_method.
     and_then (get_prop (request_params r) ''message'') (\<lambda>message.
     and_then (get_prop message ''parts'') (\<lambda>parts.
     and_then (text_of_parts parts) (\<lambda>messageText.
     and_then (data_of_parts parts) (\<lambda>structuredRequest.
       let isProductRequest =
             (String_includes (toLowerCase messageText) ''product'' \<or>
              String_includes (toLowerCase messageText) ''inventory'' \<or>
              String_includes (toLowerCase messageText) ''get'' \<or>
              (truthy structuredRequest \<and>
               opt_prop structuredRequest ''action'' = JStr ''get_products''))
       in if \<not> isProductRequest then Inr None
          else Inr (Some (message,
                          or_else (opt_prop structuredRequest ''filters'') (JObj [])))))))))"

text \<open>
  The domain processing of \<open>onMessageSend\<close>, up to the answer of the ACP tool (line 172):
  \<open>None\<close> for a request that is not a product request, else the inbound message and the
  product data.
\<close>

definition product_domain :: "env \<Rightarrow> request \<Rightarrow> error + (jsval \<times> product_data) option" where
  "product_domain env r =
     and_then (product_request r) (\<lambda>pr.
       case pr of
         None \<Rightarrow> Inr None
       | Some (message, filters) \<Rightarrow>
           and_then (getProducts env filters) (\<lambda>productData. Inr (Some (message, productData))))"

definition productArtifact :: "product_data \<Rightarrow> string \<Rightarrow> jsval" where
  "productArtifact productData timestamp =
     JObj [(''name'', JStr ''Product Inventory''),
           (''description'', JStr ''Current inventory of available products''),
           (''parts'', JArr [JObj [(''type'', JStr ''data''),
                                   (''data'', product_data_value productData)]]),
           (''index'', JNum 0),
           (''metadata'', JObj [(''source'', JStr ''ACP Tool''),
                                (''timestamp'', JStr timestamp)])]"

text \<open>
  Lines 178 to 255: the task object is the existing task or a new one; the inbound
  message and the agent's message are pushed on its history, which has a \<open>push\<close> only
  when it is an array; status and artifacts are assigned.
\<close>

definition product_task ::
  "env \<Rightarrow> request \<Rightarrow> obj option \<Rightarrow> jsval \<Rightarrow> product_data \<Rightarrow> (error + response) \<times> obj option" where
  "product_task env r task message productData =
     (let taskId = opt_prop (request_params r) ''id'';
          sessionId = or_else (opt_prop (request_params r) ''sessionId'') JNull;
          n = (if task = None then 1 else 0);
          taskObj0 = (case task of
                        Some t \<Rightarrow> t
                      | None \<Rightarrow>
                          [(''id'', taskId),
                           (''sessionId'', sessionId),
                           (''status'', status_object TaskState_Working JNull (clock env 0)),
                           (''history'', JArr []),
                           (''artifacts'', JArr []),
                           (''metadata'', JObj [])]);
          taskObj = (if \<not> truthy (obj_get taskObj0 ''history'')
                     then set_prop taskObj0 ''history'' (JArr []) else taskObj0)
      in case obj_get taskObj ''history'' of
           JArr h \<Rightarrow>
             (let agentMessage =
                    text_message (''Found '' @ Number_toString (int (length (products productData)))
                                  @ '' products in inventory.'');
                  t1 = set_prop taskObj ''history'' (JArr (h @ [message, agentMessage]));
                  t2 = set_prop t1 ''status''
                         (status_object TaskState_Completed agentMessage (clock env (n + 1)));
                  t3 = set_prop t2 ''artifacts'' (JArr [productArtifact productData (clock env n)])
              in (Inr (Result (request_id r) (JObj t3)), left_as task t3))
         | _ \<Rightarrow> (Inl (TypeError ''taskObj.history.push is not a function''), left_as task taskObj))"

definition ProductServiceExecutor_onMessageSend :: executor where
  "ProductServiceExecutor_onMessageSend env r task =
     (case product_domain env r of
        Inl e \<Rightarrow> (catch_response r ''Internal error processing product request'' e, task)
      | Inr None \<Rightarrow>
          (Failure (request_id r) (- 32602)
             ''This agent only handles product inventory requests'', task)
      | Inr (Some (message, productData)) \<Rightarrow>
          (case product_task env r task message productData of
             (Inl e, task') \<Rightarrow>
               (catch_response r ''Internal error processing product request'' e, task')
           | (Inr response, task') \<Rightarrow> (response, task')))"


section \<open>The greeting agent: GreetingAgent and GreetingAgentExecutor\<close>

text \<open>
  \<open>handleGreeting(input)\<close>: the name is \<open>input?.name || 'friend'\<close>, converted by the
  template literal. The greeting ends with the handshake sign, here in UTF-8.
\<close>

definition handleGreeting :: "jsval \<Rightarrow> error + string" where
  "handleGreeting input =
     and_then (ToString (or_else (opt_prop input ''name'') (JStr ''friend''))) (\<lambda>name.
       Inr (''Hey '' @ name @ '', greetings from Agent B ''
            @ [CHR 0xF0, CHR 0x9F, CHR 0xA4, CHR 0x9D]))"

text \<open>
  Lines 24 to 51 of \<open>onMessageSend\<close>, the domain processing: the text of the message,
  parsed as JSON or else taken as a plain greeting, and the agent's message.
\<close>

definition greeting_reply :: "env \<Rightarrow> request \<Rightarrow> error + jsval" where
  "greeting_reply env r =
     and_then (get_prop (request_params r) ''message'') (\<lambda>message.
     and_then (get_prop message ''parts'') (\<lambda>parts.
     and_then (text_of_parts parts) (\<lambda>messageText.
       let taskData =
             (case JSON_parse env messageText of
                Inl e \<Rightarrow> JObj [(''type'', JStr ''greeting''),
                               (''input'', JObj [(''message'', JStr messageText)])]
              | Inr v \<Rightarrow> v)
       in and_then (get_prop taskData ''type'') (\<lambda>ty.
          and_then (if ty = JStr ''greeting'' then handleGreeting (opt_prop taskData ''input'')
                    else Inr ''Unsupported task type'') (\<lambda>result.
            Inr (text_message result))))))"

text \<open>
  \<open>taskObj.history.some(msg => JSON.stringify(msg) === JSON.stringify(userMessage))\<close>
\<close>

definition userMessageExists :: "jsval list \<Rightarrow> jsval \<Rightarrow> bool" where
  "userMessageExists history userMessage =
     list_ex (\<lambda>msg. JSON_stringify msg = JSON_stringify userMessage) history"

text \<open>
  Lines 53 to 108: with a truthy \<open>request.params.id\<close> the task object, the existing task
  or a new one, gets the completed status, the user message unless the history has it
  already, and the agent's message; the result is the task. Without one the result is
  the agent's message. Only an array has the method \<open>some\<close>.
\<close>

definition greeting_task ::
  "env \<Rightarrow> request \<Rightarrow> obj option \<Rightarrow> jsval \<Rightarrow> (error + response) \<times> obj option" where
  "greeting_task env r task agentMessage =
     (let isTaskRequest = opt_prop (request_params r) ''id'' in
      if truthy isTaskRequest then
        (let taskId = opt_prop (request_params r) ''id'';
             sessionId = or_else (opt_prop (request_params r) ''sessionId'') JNull;
             n = (if task = None then 1 else 0);
             taskObj0 = (case task of
                           Some t \<Rightarrow> t
                         | None \<Rightarrow>
                             [(''id'', taskId),
                              (''sessionId'', sessionId),
                              (''status'', status_object TaskState_Working JNull (clock env 0)),
                              (''history'', JArr []),
                              (''metadata'', JObj [])]);
             taskObj1 = set_prop taskObj0 ''status''
                          (status_object TaskState_Completed agentMessage (clock env n));
             taskObj = (if \<not> truthy (obj_get taskObj1 ''history'')
                        then set_prop taskObj1 ''history'' (JArr []) else taskObj1);
             userMessage = opt_prop (request_params r) ''message''
         in case obj_get taskObj ''history'' of
              JArr h \<Rightarrow>
                (let h1 = (if \<not> userMessageExists h userMessage then h @ [userMessage] else h);
                     t = set_prop taskObj ''history'' (JArr (h1 @ [agentMessage]))
                 in (Inr (Result (request_id r) (JObj t)), left_as task t))
            | _ \<Rightarrow> (Inl (TypeError ''taskObj.history.some is not a function''),
                     left_as task taskObj))
      else (Inr (Result (request_id r) agentMessage), task))"

definition GreetingAgentExecutor_onMessageSend :: executor where
  "GreetingAgentExecutor_onMessageSend env r task =
     (case greeting_reply env r of
        Inl e \<Rightarrow> (catch_response r ''Internal error'' e, task)
      | Inr agentMessage \<Rightarrow>
          (case greeting_task env r task agentMessage of
             (Inl e, task') \<Rightarrow> (catch_response r ''Internal error'' e, task')
           | (Inr response, task') \<Rightarrow> (response, task')))"

section \<open>The task store and the request handlers\<close>

text \<open>
  Modelled from the spec: the task store of the a2a-js package, which is not under
  src/. Section 4.3: \<open>get(id)\<close> looks a task up by its key and answers none if absent;
  \<open>save(task)\<close> upserts by \<open>task.id\<close> and overwrites any existing entry entirely.
\<close>

type_synonym store = "jsval \<Rightarrow> jsval option"

definition taskStore_get :: "store \<Rightarrow> jsval \<Rightarrow> jsval option" where
  "taskStore_get st i = st i"

definition taskStore_save :: "store \<Rightarrow> jsval \<Rightarrow> store" where
  "taskStore_save st task = st(opt_prop task ''id'' \<mapsto> task)"

text \<open>
  A handler's \<open>onMessageSend(request)\<close> reads and writes the store and answers with a
  response, or throws.
\<close>

type_synonym handler = "store \<Rightarrow> env \<Rightarrow> request \<Rightarrow> error + (response \<times> store)"

text \<open>
  The tests of \<open>CustomRequestHandler.onMessageSend\<close> on the response:
  \<open>"result" in response\<close>, \<open>response.result\<close> (the result, \<open>undefined\<close> if there is none),
  \<open>typeof v === "object"\<close>.
\<close>

fun has_result :: "response \<Rightarrow> bool" where
  "has_result (Result i v) = True"
| "has_result (Failure i c m) = False"

fun response_result :: "response \<Rightarrow> jsval" where
  "response_result (Result i v) = v"
| "response_result (Failure i c m) = JUndefined"

fun typeof_object :: "jsval \<Rightarrow> bool" where
  "typeof_object JNull = True"
| "typeof_object (JArr xs) = True"
| "typeof_object (JObj kvs) = True"
| "typeof_object v = False"

definition is_Task_object :: "response \<Rightarrow> bool" where
  "is_Task_object response =
     (has_result response \<and>
      truthy (response_result response) \<and>
      typeof_object (response_result response) \<and>
      has_prop ''id'' (response_result response) \<and>
      has_prop ''status'' (response_result response))"

text \<open>
  \<open>CustomRequestHandler.onMessageSend\<close>, the same in both agents: the response of the
  parent's method, saved to the task store when it is a Task object. The parent's
  method is a parameter.
\<close>

definition CustomRequestHandler_onMessageSend :: "handler \<Rightarrow> handler" where
  "CustomRequestHandler_onMessageSend super st env r =
     and_then (super st env r) (\<lambda>(response, st1).
       Inr (response,
            if is_Task_object response then taskStore_save st1 (response_result response)
            else st1))"

text \<open>
  A call of the parent's method that finds no task to hand over: it invokes the
  executor with the request and no task, and writes nothing. The parent saves no Task
  result, which is why \<open>CustomRequestHandler\<close> does.
\<close>

definition no_task_parent :: "executor \<Rightarrow> handler" where
  "no_task_parent executor st env r = Inr (fst (executor env r None), st)"

text \<open>
  \<open>DefaultA2ARequestHandler.onMessageSend\<close>, the parent's method, belongs to the a2a-js
  package and is not under src/; this is the parent the repository's code is written
  for. For a truthy id in the params it loads the task from the store and appends the
  request's message to the history of that task, then invokes the executor with the
  request and the task: the greeting executor adds the user message only if it is not
  already there. The store hands out the stored object itself, so the append and what
  the executor does to the object are done to the store's entry. With no id, or no
  task under it, the executor is invoked with no task.
\<close>

definition DefaultA2ARequestHandler_onMessageSend :: "executor \<Rightarrow> handler" where
  "DefaultA2ARequestHandler_onMessageSend executor st env r =
     (let taskId = opt_prop (request_params r) ''id'' in
      case (if truthy taskId then taskStore_get st taskId else None) of
        Some (JObj t0) \<Rightarrow>
          (let received =
                 set_prop t0 ''history''
                   (JArr ((case obj_get t0 ''history'' of JArr h \<Rightarrow> h | _ \<Rightarrow> [])
                          @ [opt_prop (request_params r) ''message'']))
           in case executor env r (Some received) of
                (response, Some t) \<Rightarrow> Inr (response, st(taskId \<mapsto> JObj t))
              | (response, None) \<Rightarrow> Inr (response, st(taskId \<mapsto> JObj received)))
      | _ \<Rightarrow> no_task_parent executor st env r)"

definition greeting_handler :: handler where
  "greeting_handler =
     CustomRequestHandler_onMessageSend
       (DefaultA2ARequestHandler_onMessageSend GreetingAgentExecutor_onMessageSend)"

definition product_handler :: handler where
  "product_handler =
     CustomRequestHandler_onMessageSend
       (DefaultA2ARequestHandler_onMessageSend ProductServiceExecutor_onMessageSend)"



text \<open>
  Two calls for one id that overlap: the parent's method of each has read the store and
  found no task before either call saves. Each executor works on a task of its own;
  the first call's handler saves, then the second's. Between the read and the save lie
  the \<open>await\<close> of the executor (the fetch of the ACP tool) and those of
  \<open>CustomRequestHandler.onMessageSend\<close>; nothing in the source holds the second call
  back.
\<close>

definition overlapping_fresh_sends ::
  "executor \<Rightarrow> store \<Rightarrow> env \<times> request \<Rightarrow> env \<times> request
     \<Rightarrow> error + (response \<times> response \<times> store)" where
  "overlapping_fresh_sends executor st a b =
     and_then (CustomRequestHandler_onMessageSend (no_task_parent executor) st (fst a) (snd a))
       (\<lambda>(responseA, st1).
     and_then (CustomRequestHandler_onMessageSend (no_task_parent executor) st1 (fst b) (snd b))
       (\<lambda>(responseB, st2). Inr (responseA, responseB, st2)))"

section \<open>The history of a task, in the specification's words\<close>



text \<open>The test of the source: the two values have the same JSON text.\<close>

definition same_JSON_text :: "jsval \<Rightarrow> jsval \<Rightarrow> bool" where
  "same_JSON_text a b = (JSON_stringify a = JSON_stringify b)"

text \<open>
  Section 4.2, steps 1 and 2 of \<open>applyResult\<close>, for a given test of identity: append the
  inbound message unless an existing entry is identical, then append the outbound
  message.
\<close>

definition applyResult_history ::
  "(jsval \<Rightarrow> jsval \<Rightarrow> bool) \<Rightarrow> jsval list \<Rightarrow> jsval \<Rightarrow> jsval \<Rightarrow> jsval list" where
  "applyResult_history identical history inbound outbound =
     (if list_ex (\<lambda>m. identical m inbound) history then history else history @ [inbound])
     @ [outbound]"




text \<open>
  The task the specification expects of a first exchange: completed, with a history of
  the user's message and the agent's.
\<close>

definition is_completed_exchange :: "obj \<Rightarrow> bool" where
  "is_completed_exchange t =
     (opt_prop (obj_get t ''status'') ''state'' = TaskState_Completed \<and>
      (case obj_get t ''history'' of
         JArr [u, a] \<Rightarrow> opt_prop u ''role'' = Role_User \<and> opt_prop a ''role'' = Role_Agent
       | _ \<Rightarrow> False))"

section \<open>Example requests\<close>

text \<open>
  The outside of the examples: of the texts they use, only \<open>null\<close> is JSON; the
  catalogue answers with one product.
\<close>

definition example_env :: env where
  "example_env =
     \<lparr>JSON_parse = (\<lambda>s. if s = ''null'' then Inr JNull
                         else Inl (SyntaxError ''Unexpected token'')),
      clock = (\<lambda>n. ''2025-01-01T00:00:00.000Z''),
      fetch = Inr \<lparr>ok = True, status = 200, statusText = ''OK'',
                  json = Inr (JObj [(''products'',
                                     JArr [JObj [(''id'', JStr ''p1''),
                                                 (''name'', JStr ''Shoe'')]])])\<rparr>\<rparr>"

definition user_message :: "string \<Rightarrow> jsval" where
  "user_message s =
     JObj [(''role'', Role_User),
           (''parts'', JArr [JObj [(''type'', JStr ''text''), (''text'', JStr s)]])]"

definition tasks_send :: "string \<Rightarrow> string \<Rightarrow> request" where
  "tasks_send i s =
     \<lparr>request_id = JNum 1, request_method = JStr ''tasks/send'',
      request_params = JObj [(''id'', JStr i), (''message'', user_message s)]\<rparr>"

definition message_send :: "string \<Rightarrow> request" where
  "message_send s =
     \<lparr>request_id = JNum 1, request_method = JStr ''message/send'',
      request_params = JObj [(''message'', user_message s)]\<rparr>"

text \<open>The store without a task.\<close>

definition empty_store :: store where
  "empty_store = Map.empty"

text \<open>A task that holds two artifacts of an earlier cycle.\<close>

definition example_task :: obj where
  "example_task =
     [(''id'', JStr ''t1''), (''sessionId'', JNull),
      (''status'', status_object TaskState_Completed (text_message ''Found 0 products in inventory.'')
                     ''2024-12-31T00:00:00.000Z''),
      (''history'', JArr [user_message ''Get all products'',
                          text_message ''Found 0 products in inventory.'']),
      (''artifacts'', JArr [JObj [(''name'', JStr ''Old''), (''parts'', JArr []), (''index'', JNum 0)],
                            JObj [(''name'', JStr ''Older''), (''parts'', JArr []), (''index'', JNum 1)]]),
      (''metadata'', JObj [])]"







section \<open>Verification\<close>

subsection \<open>Simplification rules of the model\<close>

lemma and_then_simps [simp]:
  "and_then (Inl e) f = Inl e"
  "and_then (Inr v) f = f v"
  by (simp_all add: and_then_def)

lemma opt_prop_simps [simp]:
  "opt_prop JUndefined k = JUndefined"
  "opt_prop JNull k = JUndefined"
  "opt_prop (JObj kvs) k = obj_get kvs k"
  by (simp_all add: opt_prop_def obj_get_def)

subsection \<open>The text of a message\<close>

lemma filter_type_parts:
  "list_all is_part ps \<Longrightarrow> filter_type ''text'' ps = Inr (filter is_text_part ps)"
proof (induction ps)
  case Nil
  then show ?case by simp
next
  case (Cons p ps)
  then obtain kvs where p: "p = JObj kvs" by (cases p) auto
  from Cons show ?case by (simp add: p split: option.splits)
qed

lemma map_text_parts:
  "list_all is_part ps \<Longrightarrow>
   map_text (filter is_text_part ps) = Inr (map (\<lambda>p. JStr (part_text p)) (filter is_text_part ps))"
proof (induction ps)
  case Nil
  then show ?case by simp
next
  case (Cons p ps)
  then obtain kvs where p: "p = JObj kvs" by (cases p) auto
  from Cons show ?case by (auto simp add: p split: option.splits jsval.splits)
qed

lemma join_empty_strings: "join_empty (map (\<lambda>p. JStr (f p)) ps) = Inr (concat (map f ps))"
  by (induction ps) simp_all

lemma text_of_parts_message:
  "list_all is_part ps \<Longrightarrow>
   text_of_parts (JArr ps) = Inr (concat (map part_text (filter is_text_part ps)))"
  by (simp add: filter_type_parts map_text_parts join_empty_strings)

text \<open>
  C8. For a message of the data model (an object whose parts are Parts, a Text part
  holding a string), extractMessageText returns the concatenation, in part order, of
  the text of every Text part; so does the same expression where the executors use it
  on the parts; with no Text part the result is the empty string. It does not throw.
\<close>

theorem extractMessageText_concat:
  assumes "is_message m"
  shows "extractMessageText m = Inr (concat (map part_text (filter is_text_part (message_parts m))))
       \<and> get_prop m ''parts'' = Inr (JArr (message_parts m))
       \<and> text_of_parts (JArr (message_parts m))
           = Inr (concat (map part_text (filter is_text_part (message_parts m))))
       \<and> (filter is_text_part (message_parts m) = [] \<longrightarrow> extractMessageText m = Inr [])"
proof -
  from assms obtain kvs where m: "m = JObj kvs" by (cases m) auto
  from assms m obtain ps where ps: "map_of kvs ''parts'' = Some (JArr ps)" "list_all is_part ps"
    by (auto split: option.splits jsval.splits)
  have e: "extractMessageText m = text_of_parts (JArr ps)"
    by (simp add: extractMessageText_def m ps del: text_of_parts.simps)
  have mp: "message_parts m = ps" by (simp add: m ps)
  have t: "text_of_parts (JArr ps) = Inr (concat (map part_text (filter is_text_part ps)))"
    using ps(2) by (rule text_of_parts_message)
  have g: "get_prop m ''parts'' = Inr (JArr ps)" by (simp add: m ps)
  show ?thesis unfolding mp e g t by simp
qed

theorem extractMessageText_concat_witness:
  "is_message (JObj [(''role'', JStr ''user''),
                     (''parts'', JArr [JObj [(''type'', JStr ''text''), (''text'', JStr ''ab'')],
                                       JObj [(''type'', JStr ''data''), (''data'', JNum 3)],
                                       JObj [(''type'', JStr ''text''), (''text'', JStr ''cd'')]])])
   \<and> extractMessageText (JObj [(''role'', JStr ''user''),
                     (''parts'', JArr [JObj [(''type'', JStr ''text''), (''text'', JStr ''ab'')],
                                       JObj [(''type'', JStr ''data''), (''data'', JNum 3)],
                                       JObj [(''type'', JStr ''text''), (''text'', JStr ''cd'')]])])
       = Inr ''abcd''"
  using extractMessageText_concat
    [of "JObj [(''role'', JStr ''user''),
               (''parts'', JArr [JObj [(''type'', JStr ''text''), (''text'', JStr ''ab'')],
                                 JObj [(''type'', JStr ''data''), (''data'', JNum 3)],
                                 JObj [(''type'', JStr ''text''), (''text'', JStr ''cd'')]])]"]
  by simp

text \<open>
  C9. For a null or undefined message, and for a message object without a parts field,
  extractMessageText returns the empty string and extractDataFromMessage returns null;
  neither throws.
\<close>

theorem extract_total_at_boundary:
  "extractMessageText JNull = Inr [] \<and> extractMessageText JUndefined = Inr []
   \<and> extractDataFromMessage JNull = Inr JNull \<and> extractDataFromMessage JUndefined = Inr JNull
   \<and> (''parts'' \<notin> fst ` set kvs \<longrightarrow>
        extractMessageText (JObj kvs) = Inr [] \<and> extractDataFromMessage (JObj kvs) = Inr JNull)"
proof -
  have "map_of kvs ''parts'' = None" if "''parts'' \<notin> fst ` set kvs"
    using that by (simp add: map_of_eq_None_iff)
  then show ?thesis
    by (simp add: extractMessageText_def extractDataFromMessage_def)
qed

theorem extract_total_at_boundary_witness:
  "''parts'' \<notin> fst ` set [(''role'', JStr ''user'')]
   \<and> extractMessageText (JObj [(''role'', JStr ''user'')]) = Inr []
   \<and> extractDataFromMessage (JObj [(''role'', JStr ''user'')]) = Inr JNull"
  using extract_total_at_boundary [of "[(''role'', JStr ''user'')]"]
  by simp

subsection \<open>Objects\<close>

lemma obj_get_set_prop_same [simp]: "obj_get (set_prop t k v) k = v"
  by (induction t) (auto simp: obj_get_def)

lemma obj_get_set_prop_other [simp]: "k' \<noteq> k \<Longrightarrow> obj_get (set_prop t k v) k' = obj_get t k'"
  by (induction t) (auto simp: obj_get_def)

lemma keys_set_prop [simp]: "fst ` set (set_prop t k v) = insert k (fst ` set t)"
  by (induction t) (force split: if_splits)+

lemma obj_get_defined_key: "obj_get t k \<noteq> JUndefined \<Longrightarrow> k \<in> fst ` set t"
  by (force simp: obj_get_def split: option.splits dest!: map_of_SomeD)

lemma left_as_simps [simp]: "left_as None t = None" "left_as (Some t0) t = Some t"
  by (simp_all add: left_as_def)

subsection \<open>The executors' results\<close>

lemma greeting_reply_text:
  assumes "greeting_reply env r = Inr m"
  shows "\<exists>s. m = text_message s"
  using assms
  by (auto simp: greeting_reply_def and_then_def Let_def split: sum.splits if_splits)

lemma text_message_not_task [simp]:
  "\<not> is_Task_object (Result i (text_message s))"
  by (simp add: is_Task_object_def text_message_def)

lemma greeting_task_message:
  assumes "\<not> truthy (opt_prop (request_params r) ''id'')"
  shows "greeting_task env r task m = (Inr (Result (request_id r) m), task)"
  using assms by (simp add: greeting_task_def)


lemma product_task_result:
  assumes "product_task env r task message pd = (Inr response, task')"
  shows "\<exists>t h s. response = Result (request_id r) (JObj t) \<and> task' = left_as task t
           \<and> obj_get t ''history'' = JArr h \<and> h \<noteq> [] \<and> last h = text_message s
           \<and> obj_get t ''status''
               = status_object TaskState_Completed (text_message s)
                   (clock env ((if task = None then 1 else 0) + 1))
           \<and> obj_get t ''artifacts''
               = JArr [productArtifact pd (clock env (if task = None then 1 else 0))]"
proof (cases task)
  case None
  with assms show ?thesis
    by (auto simp: product_task_def Let_def obj_get_def split: if_splits)
next
  case (Some t0)
  with assms show ?thesis
    by (auto simp: product_task_def Let_def split: jsval.splits if_splits)
qed

lemma greeting_result_cases:
  assumes "GreetingAgentExecutor_onMessageSend env r task = (Result i v, task')"
  shows "\<exists>m. greeting_reply env r = Inr m \<and> greeting_task env r task m = (Inr (Result i v), task')"
  using assms
  by (auto simp: GreetingAgentExecutor_onMessageSend_def catch_response_def
           split: sum.splits prod.splits)

lemma product_result_cases:
  assumes "ProductServiceExecutor_onMessageSend env r task = (Result i v, task')"
  shows "\<exists>message pd. product_domain env r = Inr (Some (message, pd))
           \<and> product_task env r task message pd = (Inr (Result i v), task')"
  using assms
  by (auto simp: ProductServiceExecutor_onMessageSend_def catch_response_def
           split: sum.splits prod.splits option.splits)

lemma status_object_fields [simp]:
  "opt_prop (status_object state m ts) ''message'' = m"
  "opt_prop (status_object state m ts) ''state'' = state"
  by (simp_all add: status_object_def obj_get_def)

lemma is_Task_object_Result:
  assumes "is_Task_object response"
  shows "\<exists>i kvs. response = Result i (JObj kvs)"
proof -
  from assms obtain i v where r: "response = Result i v"
    by (cases response) (auto simp: is_Task_object_def)
  with assms obtain kvs where "v = JObj kvs"
    by (cases v) (auto simp: is_Task_object_def)
  with r show ?thesis by blast
qed



text \<open>
  C7. Every cycle in which the product executor provides artifacts, that is every
  result it returns, leaves a task whose artifacts are exactly the one artifact made
  from the product data of this call: the result is that task, the task object the
  executor was given has become that task, and nothing of the artifacts it held before
  is kept.
\<close>

theorem product_artifacts_replaced:
  assumes "ProductServiceExecutor_onMessageSend env r task = (Result i v, task')"
  shows "\<exists>message pd t. product_domain env r = Inr (Some (message, pd)) \<and> v = JObj t
           \<and> task' = (case task of None \<Rightarrow> None | Some t0 \<Rightarrow> Some t)
           \<and> obj_get t ''artifacts''
               = JArr [productArtifact pd (clock env (if task = None then 1 else 0))]"
proof -
  from assms obtain message pd where d: "product_domain env r = Inr (Some (message, pd))"
    and t: "product_task env r task message pd = (Inr (Result i v), task')"
    using product_result_cases by blast
  from product_task_result [OF t] d show ?thesis by (auto simp: left_as_def)
qed

theorem product_artifacts_replaced_witness:
  "obj_get example_task ''artifacts''
     = JArr [JObj [(''name'', JStr ''Old''), (''parts'', JArr []), (''index'', JNum 0)],
             JObj [(''name'', JStr ''Older''), (''parts'', JArr []), (''index'', JNum 1)]]
   \<and> (\<exists>message pd t.
         product_domain example_env (tasks_send ''t1'' ''Get all products'')
           = Inr (Some (message, pd))
         \<and> ProductServiceExecutor_onMessageSend example_env
              (tasks_send ''t1'' ''Get all products'') (Some example_task)
           = (Result (JNum 1) (JObj t), Some t)
         \<and> obj_get t ''artifacts'' = JArr [productArtifact pd (clock example_env 0)])"
proof -
  have "ProductServiceExecutor_onMessageSend example_env (tasks_send ''t1'' ''Get all products'')
          (Some example_task)
        = (Result (JNum 1)
             (response_result (fst (ProductServiceExecutor_onMessageSend example_env
                (tasks_send ''t1'' ''Get all products'') (Some example_task)))),
           snd (ProductServiceExecutor_onMessageSend example_env
                (tasks_send ''t1'' ''Get all products'') (Some example_task)))"
    by code_simp
  from product_artifacts_replaced [OF this]
  obtain message pd t where
    "product_domain example_env (tasks_send ''t1'' ''Get all products'') = Inr (Some (message, pd))"
    "response_result (fst (ProductServiceExecutor_onMessageSend example_env
        (tasks_send ''t1'' ''Get all products'') (Some example_task))) = JObj t"
    "snd (ProductServiceExecutor_onMessageSend example_env
        (tasks_send ''t1'' ''Get all products'') (Some example_task)) = Some t"
    "obj_get t ''artifacts'' = JArr [productArtifact pd (clock example_env 0)]"
    by auto
  moreover have "fst (ProductServiceExecutor_onMessageSend example_env
        (tasks_send ''t1'' ''Get all products'') (Some example_task))
      = Result (JNum 1) (response_result (fst (ProductServiceExecutor_onMessageSend example_env
        (tasks_send ''t1'' ''Get all products'') (Some example_task))))"
    by code_simp
  moreover have "obj_get example_task ''artifacts''
     = JArr [JObj [(''name'', JStr ''Old''), (''parts'', JArr []), (''index'', JNum 0)],
             JObj [(''name'', JStr ''Older''), (''parts'', JArr []), (''index'', JNum 1)]]"
    by (simp add: example_task_def obj_get_def)
  ultimately show ?thesis
    by (metis prod.collapse)
qed

text \<open>
  C1. Whatever the parent's method and the request, when the response that
  CustomRequestHandler.onMessageSend returns has a result object with an id and a
  status, that object is in the store the call leaves, under its id: the handler saved
  it, on the parent's store, by a test of the response alone.
\<close>

theorem custom_handler_saves_task_objects:
  assumes "CustomRequestHandler_onMessageSend super st env r = Inr (Result i (JObj kvs), st')"
    and "''id'' \<in> fst ` set kvs" and "''status'' \<in> fst ` set kvs"
  shows "taskStore_get st' (obj_get kvs ''id'') = Some (JObj kvs)
       \<and> (\<exists>st1. super st env r = Inr (Result i (JObj kvs), st1)
                \<and> st' = taskStore_save st1 (JObj kvs))"
proof -
  from assms(1) obtain st1 where s: "super st env r = Inr (Result i (JObj kvs), st1)"
    and st': "st' = (if is_Task_object (Result i (JObj kvs))
                     then taskStore_save st1 (response_result (Result i (JObj kvs))) else st1)"
    by (auto simp: CustomRequestHandler_onMessageSend_def and_then_def split: sum.splits)
  from assms(2,3) have "is_Task_object (Result i (JObj kvs))"
    by (simp add: is_Task_object_def)
  with st' have "st' = taskStore_save st1 (JObj kvs)" by simp
  with s show ?thesis by (simp add: taskStore_save_def taskStore_get_def)
qed

theorem custom_handler_saves_task_objects_witness:
  "CustomRequestHandler_onMessageSend
     (\<lambda>st env r. Inr (Result (request_id r) (JObj [(''id'', JStr ''t9''), (''status'', JNull)]), st))
     Map.empty example_env
     \<lparr>request_id = JNum 7, request_method = JStr ''tasks/resubscribe'', request_params = JObj []\<rparr>
   = Inr (Result (JNum 7) (JObj [(''id'', JStr ''t9''), (''status'', JNull)]),
          [JStr ''t9'' \<mapsto> JObj [(''id'', JStr ''t9''), (''status'', JNull)]])
   \<and> taskStore_get [JStr ''t9'' \<mapsto> JObj [(''id'', JStr ''t9''), (''status'', JNull)]] (JStr ''t9'')
       = Some (JObj [(''id'', JStr ''t9''), (''status'', JNull)])"
proof -
  have h: "CustomRequestHandler_onMessageSend
     (\<lambda>st env r. Inr (Result (request_id r) (JObj [(''id'', JStr ''t9''), (''status'', JNull)]), st))
     Map.empty example_env
     \<lparr>request_id = JNum 7, request_method = JStr ''tasks/resubscribe'', request_params = JObj []\<rparr>
   = Inr (Result (JNum 7) (JObj [(''id'', JStr ''t9''), (''status'', JNull)]),
          [JStr ''t9'' \<mapsto> JObj [(''id'', JStr ''t9''), (''status'', JNull)]])"
    by (simp add: CustomRequestHandler_onMessageSend_def is_Task_object_def taskStore_save_def
          obj_get_def)
  from custom_handler_saves_task_objects [OF h] h show ?thesis
    by (simp add: obj_get_def taskStore_get_def taskStore_save_def)
qed

subsection \<open>A first exchange\<close>

lemma product_domain_message:
  assumes "product_domain env r = Inr (Some (message, pd))"
  shows "get_prop (request_params r) ''message'' = Inr message"
  using assms
  by (auto simp: product_domain_def product_request_def and_then_def Let_def
           split: sum.splits option.splits if_splits prod.splits)

lemma greeting_fresh_task:
  assumes "truthy (opt_prop (request_params r) ''id'')"
  shows "\<exists>t. greeting_task env r None m = (Inr (Result (request_id r) (JObj t)), None)
           \<and> obj_get t ''history'' = JArr [opt_prop (request_params r) ''message'', m]
           \<and> obj_get t ''status'' = status_object TaskState_Completed m (clock env 1)"
  using assms
  by (simp add: greeting_task_def Let_def obj_get_def userMessageExists_def)

lemma product_fresh_task:
  "\<exists>s ts t. product_task env r None message pd = (Inr (Result (request_id r) (JObj t)), None)
           \<and> obj_get t ''history'' = JArr [message, text_message s]
           \<and> obj_get t ''status'' = status_object TaskState_Completed (text_message s) ts"
  by (intro exI [of _ "''Found '' @ Number_toString (int (length (products pd)))
                       @ '' products in inventory.''"] exI [of _ "clock env 2"] )
     (simp add: product_task_def Let_def obj_get_def numeral_2_eq_2)

lemma text_message_role [simp]: "opt_prop (text_message s) ''role'' = Role_Agent"
  by (simp add: text_message_def obj_get_def)

text \<open>
  C6, as amended. A tasks/send request with a truthy task id, no existing task, and a
  message of role User: when the greeting executor's reply does not throw, or when the
  product executor accepts the request and the catalogue answers, the result is a task
  with status.state = Completed and a history of exactly the user's message and the
  agent's message.
\<close>

theorem fresh_text_task_completed:
  assumes "request_params r = JObj ps"
    and "map_of ps ''id'' = Some taskId" and "truthy taskId"
    and "map_of ps ''message'' = Some (JObj ms)"
    and "map_of ms ''role'' = Some Role_User"
    and "(executor = GreetingAgentExecutor_onMessageSend \<and> greeting_reply env r = Inr m)
       \<or> (executor = ProductServiceExecutor_onMessageSend
           \<and> product_domain env r = Inr (Some (message, pd)))"
  shows "\<exists>t. executor env r None = (Result (request_id r) (JObj t), None)
           \<and> is_completed_exchange t"
proof -
  have id: "truthy (opt_prop (request_params r) ''id'')"
    using assms(1-3) by (simp add: obj_get_def)
  have um: "opt_prop (request_params r) ''message'' = JObj ms"
    using assms(1,4) by (simp add: obj_get_def)
  have role: "opt_prop (JObj ms) ''role'' = Role_User"
    using assms(5) by (simp add: obj_get_def)
  from assms(6) show ?thesis
  proof (elim disjE conjE)
    assume e: "executor = GreetingAgentExecutor_onMessageSend"
      and m: "greeting_reply env r = Inr m"
    from m obtain s where s: "m = text_message s" using greeting_reply_text by blast
    from greeting_fresh_task [OF id, of env m] obtain t where
      t: "greeting_task env r None m = (Inr (Result (request_id r) (JObj t)), None)"
      and h: "obj_get t ''history'' = JArr [opt_prop (request_params r) ''message'', m]"
      and st: "obj_get t ''status'' = status_object TaskState_Completed m (clock env 1)"
      by blast
    have "executor env r None = (Result (request_id r) (JObj t), None)"
      using e m t by (simp add: GreetingAgentExecutor_onMessageSend_def)
    moreover have "is_completed_exchange t"
      using h st um role s by (simp add: is_completed_exchange_def)
    ultimately show ?thesis by blast
  next
    assume e: "executor = ProductServiceExecutor_onMessageSend"
      and d: "product_domain env r = Inr (Some (message, pd))"
    from product_domain_message [OF d] assms(1,4) have msg: "message = JObj ms"
      by (simp add: obj_get_def)
    from product_fresh_task [of env r message pd] obtain s ts t where
      t: "product_task env r None message pd = (Inr (Result (request_id r) (JObj t)), None)"
      and h: "obj_get t ''history'' = JArr [message, text_message s]"
      and st: "obj_get t ''status'' = status_object TaskState_Completed (text_message s) ts"
      by blast
    have "executor env r None = (Result (request_id r) (JObj t), None)"
      using e d t by (simp add: ProductServiceExecutor_onMessageSend_def)
    moreover have "is_completed_exchange t"
      using h st msg role by (simp add: is_completed_exchange_def)
    ultimately show ?thesis by blast
  qed
qed

text \<open>
  The scenario of the specification, sent to the product executor: the text hello is
  not a product request, and the answer is the error -32602, not a task.
\<close>

theorem product_rejects_hello:
  "ProductServiceExecutor_onMessageSend example_env (tasks_send ''t1'' ''hello'') None
   = (Failure (JNum 1) (- 32602) ''This agent only handles product inventory requests'', None)"
  by code_simp

theorem fresh_text_task_completed_witness:
  "greeting_reply example_env (tasks_send ''t1'' ''hello'')
     = Inr (text_message (''Hey friend, greetings from Agent B ''
                          @ [CHR 0xF0, CHR 0x9F, CHR 0xA4, CHR 0x9D]))
   \<and> (\<exists>t. GreetingAgentExecutor_onMessageSend example_env (tasks_send ''t1'' ''hello'') None
             = (Result (JNum 1) (JObj t), None)
          \<and> is_completed_exchange t)
   \<and> (\<exists>t. ProductServiceExecutor_onMessageSend example_env
             (tasks_send ''t1'' ''Get all products'') None
             = (Result (JNum 1) (JObj t), None)
          \<and> is_completed_exchange t)"
proof -
  have g: "greeting_reply example_env (tasks_send ''t1'' ''hello'')
           = Inr (text_message (''Hey friend, greetings from Agent B ''
                                @ [CHR 0xF0, CHR 0x9F, CHR 0xA4, CHR 0x9D]))"
    by code_simp
  have p: "product_domain example_env (tasks_send ''t1'' ''Get all products'')
           = Inr (Some (user_message ''Get all products'',
                        the (map_option snd (projr (product_domain example_env
                               (tasks_send ''t1'' ''Get all products''))))))"
    by code_simp
  have ps: "request_params (tasks_send ''t1'' s)
            = JObj [(''id'', JStr ''t1''), (''message'', user_message s)]" for s
    by (simp add: tasks_send_def)
  have ms: "map_of [(''id'', JStr ''t1''), (''message'', user_message s)] ''message''
            = Some (JObj [(''role'', Role_User),
                          (''parts'', JArr [JObj [(''type'', JStr ''text''), (''text'', JStr s)]])])" for s
    by (simp add: user_message_def)
  have i: "map_of [(''id'', JStr ''t1''), (''message'', user_message s)] ''id'' = Some (JStr ''t1'')" for s
    by simp
  have tr: "truthy (JStr ''t1'')" by simp
  have ro: "map_of [(''role'', Role_User),
                    (''parts'', JArr [JObj [(''type'', JStr ''text''), (''text'', JStr s)]])] ''role''
            = Some Role_User" for s
    by simp
  have rid: "request_id (tasks_send ''t1'' s) = JNum 1" for s
    by (simp add: tasks_send_def)
  from fresh_text_task_completed [OF ps i tr ms ro disjI1 [OF conjI [OF refl g]]]
       fresh_text_task_completed [OF ps i tr ms ro disjI2 [OF conjI [OF refl p]]]
       g
  show ?thesis by (simp only: rid)
qed

subsection \<open>The handlers\<close>

lemma default_handler_no_task:
  assumes "\<not> truthy (opt_prop (request_params r) ''id'')
         \<or> taskStore_get st (opt_prop (request_params r) ''id'') = None"
  shows "DefaultA2ARequestHandler_onMessageSend executor st env r
         = Inr (fst (executor env r None), st)"
  using assms
  by (auto simp: DefaultA2ARequestHandler_onMessageSend_def Let_def no_task_parent_def)

lemma custom_handler_no_task:
  assumes "super st env r = Inr (response, st1)" and "\<not> is_Task_object response"
  shows "CustomRequestHandler_onMessageSend super st env r = Inr (response, st1)"
  using assms by (simp add: CustomRequestHandler_onMessageSend_def)

lemma Failure_not_task [simp]: "\<not> is_Task_object (Failure i c m)"
  by (simp add: is_Task_object_def)




text \<open>
  C4, as amended. A message/send request to the greeting agent (no truthy id in the
  params) is answered with a response that is not a Task object, the agent's message
  itself when the reply does not throw, and the store is left as it was.
\<close>

theorem greeting_message_send_leaves_store:
  assumes "\<not> truthy (opt_prop (request_params r) ''id'')"
  shows "\<exists>response. GreetingAgentExecutor_onMessageSend env r task = (response, task)
           \<and> greeting_handler st env r = Inr (response, st)
           \<and> \<not> is_Task_object response
           \<and> (\<forall>m. greeting_reply env r = Inr m \<longrightarrow> response = Result (request_id r) m)"
proof (cases "greeting_reply env r")
  case (Inl e)
  have ex: "GreetingAgentExecutor_onMessageSend env r task
        = (catch_response r ''Internal error'' e, task)" for task
    by (simp add: GreetingAgentExecutor_onMessageSend_def Inl)
  then have "DefaultA2ARequestHandler_onMessageSend GreetingAgentExecutor_onMessageSend st env r
             = Inr (catch_response r ''Internal error'' e, st)"
    by (simp add: default_handler_no_task assms)
  with ex [of task] show ?thesis
    unfolding greeting_handler_def
    by (simp add: custom_handler_no_task catch_response_def Inl)
next
  case (Inr m)
  then obtain s where s: "m = text_message s" using greeting_reply_text by blast
  have ex: "GreetingAgentExecutor_onMessageSend env r task = (Result (request_id r) m, task)" for task
    by (simp add: GreetingAgentExecutor_onMessageSend_def Inr greeting_task_message [OF assms])
  then have "DefaultA2ARequestHandler_onMessageSend GreetingAgentExecutor_onMessageSend st env r
             = Inr (Result (request_id r) m, st)"
    by (simp add: default_handler_no_task assms)
  with ex [of task] show ?thesis
    unfolding greeting_handler_def
    by (simp add: custom_handler_no_task Inr s)
qed

text \<open>
  A message/send request to the product agent: the result is a Task object, and the
  handler saves it, under the id undefined, in a store that held nothing.
\<close>

theorem product_message_send_saves_task:
  "is_Task_object (fst (projr (product_handler empty_store example_env
                                 (message_send ''Get all products''))))
   \<and> taskStore_get (snd (projr (product_handler empty_store example_env
                                   (message_send ''Get all products'')))) JUndefined
       = Some (response_result (fst (projr (product_handler empty_store example_env
                                              (message_send ''Get all products'')))))
   \<and> taskStore_get empty_store JUndefined = None"
  by code_simp

theorem greeting_message_send_leaves_store_witness:
  "greeting_handler (empty_store(JStr ''t1'' \<mapsto> JObj example_task)) example_env
     (message_send ''hello'')
   = Inr (Result (JNum 1)
            (text_message (''Hey friend, greetings from Agent B ''
                           @ [CHR 0xF0, CHR 0x9F, CHR 0xA4, CHR 0x9D])),
          empty_store(JStr ''t1'' \<mapsto> JObj example_task))"
proof -
  have a: "\<not> truthy (opt_prop (request_params (message_send ''hello'')) ''id'')"
    by (simp add: message_send_def obj_get_def)
  have g: "greeting_reply example_env (message_send ''hello'')
       = Inr (text_message (''Hey friend, greetings from Agent B ''
                            @ [CHR 0xF0, CHR 0x9F, CHR 0xA4, CHR 0x9D]))"
    by code_simp
  have i: "request_id (message_send ''hello'') = JNum 1"
    by (simp add: message_send_def)
  from greeting_message_send_leaves_store
         [OF a, of example_env None "empty_store(JStr ''t1'' \<mapsto> JObj example_task)"] g i
  show ?thesis by auto
qed

subsection \<open>Cycles of the greeting executor\<close>

lemma userMessageExists_same_text:
  "userMessageExists h u = list_ex (\<lambda>m. same_JSON_text m u) h"
  by (simp add: userMessageExists_def same_JSON_text_def)

lemma greeting_task_fresh:
  assumes "truthy (opt_prop (request_params r) ''id'')"
  shows "\<exists>t. greeting_task env r None m = (Inr (Result (request_id r) (JObj t)), None)
           \<and> obj_get t ''id'' = opt_prop (request_params r) ''id''
           \<and> ''id'' \<in> fst ` set t \<and> ''status'' \<in> fst ` set t
           \<and> obj_get t ''history''
               = JArr (applyResult_history same_JSON_text []
                         (opt_prop (request_params r) ''message'') m)"
  using assms
  by (simp add: greeting_task_def Let_def obj_get_def applyResult_history_def
        userMessageExists_def)

lemma greeting_task_existing:
  assumes "truthy (opt_prop (request_params r) ''id'')"
    and "obj_get t0 ''history'' = JArr h"
  shows "\<exists>t. greeting_task env r (Some t0) m = (Inr (Result (request_id r) (JObj t)), Some t)
           \<and> ''status'' \<in> fst ` set t
           \<and> obj_get t ''history''
               = JArr (applyResult_history same_JSON_text h
                         (opt_prop (request_params r) ''message'') m)"
  using assms
  by (simp add: greeting_task_def Let_def applyResult_history_def userMessageExists_same_text)








subsection \<open>Two calls for one task id\<close>

lemma product_task_fresh:
  "\<exists>t outbound. product_task env r None message pd
                   = (Inr (Result (request_id r) (JObj t)), None)
     \<and> obj_get t ''id'' = opt_prop (request_params r) ''id''
     \<and> ''id'' \<in> fst ` set t \<and> ''status'' \<in> fst ` set t
     \<and> obj_get t ''history'' = JArr [message, outbound]"
  by (simp add: product_task_def Let_def obj_get_def)

lemma product_task_existing:
  assumes "obj_get t0 ''history'' = JArr h"
  shows "\<exists>t outbound. product_task env r (Some t0) message pd
                        = (Inr (Result (request_id r) (JObj t)), Some t)
           \<and> obj_get t ''history'' = JArr (h @ [message, outbound])"
  using assms by (simp add: product_task_def Let_def)

lemma fresh_result:
  assumes e: "executor = GreetingAgentExecutor_onMessageSend
            \<or> executor = ProductServiceExecutor_onMessageSend"
    and id: "truthy (opt_prop (request_params r) ''id'')"
    and res: "fst (executor env r None) = Result i (JObj t)"
  shows "is_Task_object (Result i (JObj t))
       \<and> obj_get t ''id'' = opt_prop (request_params r) ''id''
       \<and> (\<exists>outbound. obj_get t ''history''
                         = JArr [opt_prop (request_params r) ''message'', outbound])"
  using e
proof
  assume g: "executor = GreetingAgentExecutor_onMessageSend"
  from res g have "GreetingAgentExecutor_onMessageSend env r None
                   = (Result i (JObj t), snd (GreetingAgentExecutor_onMessageSend env r None))"
    by (metis prod.collapse)
  then obtain m where m: "greeting_reply env r = Inr m"
    and gt: "greeting_task env r None m
             = (Inr (Result i (JObj t)), snd (GreetingAgentExecutor_onMessageSend env r None))"
    using greeting_result_cases by blast
  from greeting_task_fresh [OF id, of env m] gt show ?thesis
    by (auto simp: is_Task_object_def applyResult_history_def)
next
  assume p: "executor = ProductServiceExecutor_onMessageSend"
  from res p have "ProductServiceExecutor_onMessageSend env r None
                   = (Result i (JObj t), snd (ProductServiceExecutor_onMessageSend env r None))"
    by (metis prod.collapse)
  then obtain message pd where d: "product_domain env r = Inr (Some (message, pd))"
    and pt: "product_task env r None message pd
             = (Inr (Result i (JObj t)), snd (ProductServiceExecutor_onMessageSend env r None))"
    using product_result_cases by blast
  from product_domain_message [OF d] have "opt_prop (request_params r) ''message'' = message"
    by (simp add: opt_prop_def)
  with product_task_fresh [of env r message pd] pt show ?thesis
    by (auto simp: is_Task_object_def)
qed

lemma existing_history_kept:
  assumes e: "executor = GreetingAgentExecutor_onMessageSend
            \<or> executor = ProductServiceExecutor_onMessageSend"
    and id: "truthy (opt_prop (request_params r) ''id'')"
    and res: "executor env r (Some t0) = (Result i (JObj t), task')"
    and h0: "obj_get t0 ''history'' = JArr h0"
  shows "\<exists>suffix. obj_get t ''history'' = JArr (h0 @ suffix)"
  using e
proof
  assume g: "executor = GreetingAgentExecutor_onMessageSend"
  with res obtain m where
    gt: "greeting_task env r (Some t0) m = (Inr (Result i (JObj t)), task')"
    using greeting_result_cases by blast
  from greeting_task_existing [OF id h0, of env m] gt show ?thesis
    by (auto simp: applyResult_history_def)
next
  assume p: "executor = ProductServiceExecutor_onMessageSend"
  with res obtain message pd where
    pt: "product_task env r (Some t0) message pd = (Inr (Result i (JObj t)), task')"
    using product_result_cases by blast
  from product_task_existing [OF h0, of env r message pd] pt show ?thesis
    by auto
qed

text \<open>
  C5, as amended. The handler does not serialize calls for one task id. A tasks/send
  call that is given an existing task keeps every entry of that task's history and
  appends its own. Two tasks/send calls for a fresh id that overlap, both having read
  the store before either saves, each build a task of their own; the second save
  overwrites the first, and the persisted task holds the second call's two history
  entries alone.
\<close>

theorem overlapping_sends_last_write_wins:
  assumes "executor = GreetingAgentExecutor_onMessageSend
         \<or> executor = ProductServiceExecutor_onMessageSend"
    and "opt_prop (request_params (snd a)) ''id'' = taskId"
    and "opt_prop (request_params (snd b)) ''id'' = taskId"
    and "truthy taskId"
    and "fst (executor (fst a) (snd a) None) = Result ia (JObj ta)"
    and "fst (executor (fst b) (snd b) None) = Result ib (JObj tb)"
  shows "(\<exists>st'. overlapping_fresh_sends executor st a b
                  = Inr (Result ia (JObj ta), Result ib (JObj tb), st')
               \<and> taskStore_get st' taskId = Some (JObj tb))
       \<and> (\<exists>outbound. obj_get tb ''history''
                         = JArr [opt_prop (request_params (snd b)) ''message'', outbound])
       \<and> (\<forall>t0 h0 i t task'.
             executor (fst b) (snd b) (Some t0) = (Result i (JObj t), task')
             \<and> obj_get t0 ''history'' = JArr h0
             \<longrightarrow> (\<exists>suffix. obj_get t ''history'' = JArr (h0 @ suffix)))"
proof -
  have ida: "truthy (opt_prop (request_params (snd a)) ''id'')"
    and idb: "truthy (opt_prop (request_params (snd b)) ''id'')"
    using assms(2-4) by simp_all
  from fresh_result [OF assms(1) ida assms(5)]
  have ta: "is_Task_object (Result ia (JObj ta))" and tai: "obj_get ta ''id'' = taskId"
    using assms(2) by simp_all
  from fresh_result [OF assms(1) idb assms(6)]
  have tb: "is_Task_object (Result ib (JObj tb))" and tbi: "obj_get tb ''id'' = taskId"
    and tbh: "\<exists>outbound. obj_get tb ''history''
                = JArr [opt_prop (request_params (snd b)) ''message'', outbound]"
    using assms(3) by simp_all
  have "overlapping_fresh_sends executor st a b
        = Inr (Result ia (JObj ta), Result ib (JObj tb),
               taskStore_save (taskStore_save st (JObj ta)) (JObj tb))"
    by (simp add: overlapping_fresh_sends_def CustomRequestHandler_onMessageSend_def
          no_task_parent_def assms(5,6) ta tb)
  moreover have "taskStore_get (taskStore_save (taskStore_save st (JObj ta)) (JObj tb)) taskId
                 = Some (JObj tb)"
    by (simp add: taskStore_get_def taskStore_save_def tbi)
  ultimately have first: "\<exists>st'. overlapping_fresh_sends executor st a b
                  = Inr (Result ia (JObj ta), Result ib (JObj tb), st')
               \<and> taskStore_get st' taskId = Some (JObj tb)"
    by blast
  have third: "\<exists>suffix. obj_get t ''history'' = JArr (h0 @ suffix)"
    if "executor (fst b) (snd b) (Some t0) = (Result i (JObj t), task')"
      and "obj_get t0 ''history'' = JArr h0" for t0 h0 i t task'
    using existing_history_kept [OF assms(1) idb that] .
  from first tbh third show ?thesis by blast
qed

theorem overlapping_sends_last_write_wins_witness:
  "\<exists>ta tb st'.
     fst (GreetingAgentExecutor_onMessageSend example_env (tasks_send ''t1'' ''hello'') None)
       = Result (JNum 1) (JObj ta)
     \<and> fst (GreetingAgentExecutor_onMessageSend example_env (tasks_send ''t1'' ''hi'') None)
       = Result (JNum 1) (JObj tb)
     \<and> overlapping_fresh_sends GreetingAgentExecutor_onMessageSend empty_store
         (example_env, tasks_send ''t1'' ''hello'') (example_env, tasks_send ''t1'' ''hi'')
       = Inr (Result (JNum 1) (JObj ta), Result (JNum 1) (JObj tb), st')
     \<and> taskStore_get st' (JStr ''t1'') = Some (JObj tb)
     \<and> (\<exists>outbound. obj_get tb ''history'' = JArr [user_message ''hi'', outbound])"
proof -
  let ?A = "GreetingAgentExecutor_onMessageSend example_env (tasks_send ''t1'' ''hello'') None"
  let ?B = "GreetingAgentExecutor_onMessageSend example_env (tasks_send ''t1'' ''hi'') None"
  have a1: "fst ?A = Result (JNum 1) (response_result (fst ?A))" by code_simp
  have a2: "is_Task_object (fst ?A)" by code_simp
  from a2 obtain i ta where a3: "fst ?A = Result i (JObj ta)"
    using is_Task_object_Result by blast
  then have "response_result (fst ?A) = JObj ta" by simp
  with a1 have a: "fst (GreetingAgentExecutor_onMessageSend (fst (example_env, tasks_send ''t1'' ''hello''))
                          (snd (example_env, tasks_send ''t1'' ''hello'')) None)
                   = Result (JNum 1) (JObj ta)"
    by (metis fst_conv snd_conv)
  have b1: "fst ?B = Result (JNum 1) (response_result (fst ?B))" by code_simp
  have b2: "is_Task_object (fst ?B)" by code_simp
  from b2 obtain j tb where b3: "fst ?B = Result j (JObj tb)"
    using is_Task_object_Result by blast
  then have "response_result (fst ?B) = JObj tb" by simp
  with b1 have b: "fst (GreetingAgentExecutor_onMessageSend (fst (example_env, tasks_send ''t1'' ''hi''))
                          (snd (example_env, tasks_send ''t1'' ''hi'')) None)
                   = Result (JNum 1) (JObj tb)"
    by (metis fst_conv snd_conv)
  have ida: "opt_prop (request_params (snd (example_env, tasks_send ''t1'' ''hello''))) ''id''
             = JStr ''t1''"
    by (simp add: tasks_send_def obj_get_def)
  have idb: "opt_prop (request_params (snd (example_env, tasks_send ''t1'' ''hi''))) ''id''
             = JStr ''t1''"
    by (simp add: tasks_send_def obj_get_def)
  have tr: "truthy (JStr ''t1'')" by simp
  have um: "opt_prop (request_params (snd (example_env, tasks_send ''t1'' ''hi''))) ''message''
            = user_message ''hi''"
    by (simp add: tasks_send_def obj_get_def)
  from overlapping_sends_last_write_wins [OF disjI1 [OF refl] ida idb tr a b, of empty_store]
  obtain st' outbound where
    "overlapping_fresh_sends GreetingAgentExecutor_onMessageSend empty_store
       (example_env, tasks_send ''t1'' ''hello'') (example_env, tasks_send ''t1'' ''hi'')
     = Inr (Result (JNum 1) (JObj ta), Result (JNum 1) (JObj tb), st')"
    "taskStore_get st' (JStr ''t1'') = Some (JObj tb)"
    "obj_get tb ''history'' = JArr [user_message ''hi'', outbound]"
    unfolding um by blast
  with a b show ?thesis by auto
qed

text \<open>
  Two overlapping calls for the fresh id t1, to the greeting agent and to the product
  agent: the first call is answered with a task that holds its message, and the task
  the store holds in the end has the second call's two entries and nothing of the
  first call.
\<close>

theorem overlapping_sends_lose_first_call:
  "opt_prop (response_result (fst (projr (overlapping_fresh_sends
       GreetingAgentExecutor_onMessageSend empty_store
       (example_env, tasks_send ''t1'' ''hello'') (example_env, tasks_send ''t1'' ''hi'')))))
     ''history''
     = JArr [user_message ''hello'',
             text_message (''Hey friend, greetings from Agent B ''
                           @ [CHR 0xF0, CHR 0x9F, CHR 0xA4, CHR 0x9D])]
   \<and> opt_prop (the (taskStore_get (snd (snd (projr (overlapping_fresh_sends
       GreetingAgentExecutor_onMessageSend empty_store
       (example_env, tasks_send ''t1'' ''hello'') (example_env, tasks_send ''t1'' ''hi'')))))
       (JStr ''t1''))) ''history''
     = JArr [user_message ''hi'',
             text_message (''Hey friend, greetings from Agent B ''
                           @ [CHR 0xF0, CHR 0x9F, CHR 0xA4, CHR 0x9D])]
   \<and> opt_prop (response_result (fst (projr (overlapping_fresh_sends
       ProductServiceExecutor_onMessageSend empty_store
       (example_env, tasks_send ''t1'' ''Get all products'')
       (example_env, tasks_send ''t1'' ''Show inventory'')))))
     ''history''
     = JArr [user_message ''Get all products'', text_message ''Found 1 products in inventory.'']
   \<and> opt_prop (the (taskStore_get (snd (snd (projr (overlapping_fresh_sends
       ProductServiceExecutor_onMessageSend empty_store
       (example_env, tasks_send ''t1'' ''Get all products'')
       (example_env, tasks_send ''t1'' ''Show inventory'')))))
       (JStr ''t1''))) ''history''
     = JArr [user_message ''Show inventory'', text_message ''Found 1 products in inventory.'']"
  by code_simp

end
